theory Spec2Isabelle
  imports Main "HOL-Library.Word"
begin

unbundle bit_operations_syntax

section \<open>JavaScript values as the portal's routes use them\<close>

text \<open>
  The two API routes of the portal read their input with \<^verbatim>\<open>await request.json()\<close>, so
  a body is any JSON value. Numbers are IEEE doubles in the source; the routes test them
  for truthiness and write them back as JSON, so the number type is a parameter \<open>'n\<close>,
  and the test for zero and the JSON written for a number are passed in.
\<close>

datatype 'n json =
    JNull
  | JBool bool
  | JNum 'n
  | JStr string
  | JArr "'n json list"
  | JObj "(string \<times> 'n json) list"

text \<open>A thrown JavaScript error, with its \<^verbatim>\<open>message\<close>.\<close>

datatype js_error = JsError (message: string)

text \<open>
  A JavaScript value that may be \<^verbatim>\<open>undefined\<close> is a \<open>'n json option\<close>, \<open>None\<close> being
  \<^verbatim>\<open>undefined\<close>. \<open>truthy\<close> is JavaScript's ToBoolean: \<^verbatim>\<open>null\<close>, \<^verbatim>\<open>false\<close>, zero and
  the empty string are falsy, every array and object is truthy.
\<close>

fun truthy :: "('n \<Rightarrow> bool) \<Rightarrow> 'n json \<Rightarrow> bool" where
  "truthy z JNull = False"
| "truthy z (JBool b) = b"
| "truthy z (JNum n) = (\<not> z n)"
| "truthy z (JStr s) = (s \<noteq> [])"
| "truthy z (JArr xs) = True"
| "truthy z (JObj kvs) = True"

fun truthy_val :: "('n \<Rightarrow> bool) \<Rightarrow> 'n json option \<Rightarrow> bool" where
  "truthy_val z None = False"
| "truthy_val z (Some v) = truthy z v"

text \<open>
  Member access \<^verbatim>\<open>body.k\<close>. On \<^verbatim>\<open>null\<close> it throws a TypeError; on an object it reads
  the property (the list holds the parsed object's own properties, looked up by key); on
  a boolean, number, string or array it is \<^verbatim>\<open>undefined\<close> for every name the routes read
  (\<^verbatim>\<open>device_id\<close>, \<^verbatim>\<open>consent_id\<close>, \<^verbatim>\<open>scope\<close>, \<^verbatim>\<open>contact\<close>, \<^verbatim>\<open>name\<close>, \<^verbatim>\<open>email\<close>,
  \<^verbatim>\<open>company\<close>, \<^verbatim>\<open>device\<close>, \<^verbatim>\<open>authorized\<close>: none is a prototype property).
\<close>

definition null_deref_message :: "string \<Rightarrow> string" where
  "null_deref_message k =
     ''Cannot read properties of null (reading '' @ [CHR 0x27] @ k @ [CHR 0x27] @ '')''"

fun get_prop :: "'n json \<Rightarrow> string \<Rightarrow> js_error + 'n json option" where
  "get_prop JNull k = Inl (JsError (null_deref_message k))"
| "get_prop (JObj kvs) k = Inr (map_of kvs k)"
| "get_prop v k = Inr None"

text \<open>\<^verbatim>\<open>a || b\<close> on values: the left operand when it is truthy, else the right one.\<close>

definition js_or :: "('n \<Rightarrow> bool) \<Rightarrow> 'n json option \<Rightarrow> 'n json \<Rightarrow> 'n json" where
  "js_or z a b = (case a of Some v \<Rightarrow> (if truthy z v then v else b) | None \<Rightarrow> b)"

text \<open>
  The JSON value that \<^verbatim>\<open>JSON.stringify\<close> writes for a value that came from
  \<^verbatim>\<open>JSON.parse\<close>, as a reader of the text parses it. Strings, booleans and \<^verbatim>\<open>null\<close> are
  written as they are, arrays and objects element by element and in their order (a
  \<open>JObj\<close> lists the properties as the engine enumerates them); a number is written as
  \<open>w\<close> says: \<^verbatim>\<open>null\<close> for a number that is not finite (\<^verbatim>\<open>JSON.parse\<close> gives Infinity for
  \<^verbatim>\<open>1e400\<close>), zero for the negative zero, the number itself otherwise.
\<close>

primrec stringify :: "('n \<Rightarrow> 'n json) \<Rightarrow> 'n json \<Rightarrow> 'n json" where
  "stringify w JNull = JNull"
| "stringify w (JBool b) = JBool b"
| "stringify w (JNum n) = w n"
| "stringify w (JStr s) = JStr s"
| "stringify w (JArr xs) = JArr (map (stringify w) xs)"
| "stringify w (JObj kvs) = JObj (map (map_prod id (stringify w)) kvs)"

text \<open>
  \<^verbatim>\<open>await request.json()\<close> either rejects (the body is not JSON) or yields the parsed
  value.
\<close>

datatype 'n request_body = BadJson js_error | Json "'n json"

text \<open>
  \<^verbatim>\<open>NextResponse.json(data, {status})\<close>; the status is 200 when none is given. The body
  is the data as written; but for the record that the consent route's \<^verbatim>\<open>GET\<close> answers,
  the data the routes pass are made of strings and booleans, which are written as they
  are.
\<close>

record 'n response =
  status :: nat
  body :: "'n json"

definition json_response :: "'n json \<Rightarrow> 'n response" where
  "json_response d = \<lparr>status = 200, body = d\<rparr>"

definition json_response_status :: "'n json \<Rightarrow> nat \<Rightarrow> 'n response" where
  "json_response_status d s = \<lparr>status = s, body = d\<rparr>"

section \<open>The publishStart route\<close>

text \<open>
  The module keeps one MQTT client in the global \<^verbatim>\<open>mqttClient\<close> (\<open>None\<close> is \<^verbatim>\<open>null\<close>).
  Of a client the route reads only \<^verbatim>\<open>connected\<close>.
\<close>

record mqtt_client =
  client_id_stamp :: nat
  connected :: bool

text \<open>
  What the broker does after \<^verbatim>\<open>mqtt.connect\<close> while the route waits: the client emits
  \<^verbatim>\<open>connect\<close>, or \<^verbatim>\<open>error\<close>, or neither within the 5000 ms of the route's timer.
\<close>

datatype connect_outcome = ConnectEvent | ErrorEvent js_error | NoEvent

text \<open>
  The surroundings of one request: \<^verbatim>\<open>process.env\<close>, the clock, the test for a zero
  number, what \<^verbatim>\<open>JSON.stringify\<close> writes for a number, ToString of a value that is not
  a string (it may throw, as on an object whose own \<^verbatim>\<open>toString\<close> is not callable), the
  broker's answer to a connection, the error, if any, that \<^verbatim>\<open>client.publish\<close> hands to
  its callback, and the random bytes that \<^verbatim>\<open>randomUUID\<close> draws.
\<close>

record 'n env =
  MQTT_BROKER :: "string option"
  MQTT_PORT :: "string option"
  MQTT_USERNAME :: "string option"
  MQTT_PASSWORD :: "string option"
  MQTT_USE_TLS :: "string option"
  date_now :: nat
  date_iso :: string
  is_zero :: "'n \<Rightarrow> bool"
  number_json :: "'n \<Rightarrow> 'n json"
  to_string_other :: "'n json \<Rightarrow> js_error + string"
  on_connect :: connect_outcome
  on_publish :: "js_error option"
  random_bytes :: "nat \<Rightarrow> 8 word"

text \<open>What the route does to the broker, in order.\<close>

datatype 'n effect =
    Connect (tls: bool) (broker: string) (port_text: string) (user: string) (stamp: nat)
  | Publish (topic: string) (payload: "'n json") (qos: nat)

text \<open>
  A string that may be missing (a variable of \<^verbatim>\<open>process.env\<close>, a header, a query
  parameter) is falsy when it is missing or empty; \<open>str_or\<close> is \<^verbatim>\<open>v || d\<close>.
\<close>

definition str_set :: "string option \<Rightarrow> bool" where
  "str_set v = (case v of None \<Rightarrow> False | Some s \<Rightarrow> s \<noteq> [])"

definition str_or :: "string option \<Rightarrow> string \<Rightarrow> string" where
  "str_or v d = (if str_set v then the v else d)"

text \<open>
  \<^verbatim>\<open>getMqttClient\<close>: the live client when there is one and it is connected; otherwise
  the configuration is read, \<^verbatim>\<open>MQTT configuration missing\<close> is thrown when broker, user
  name or password is unset, and a new client is created by \<^verbatim>\<open>mqtt.connect\<close> and stored
  in the global. \<open>port_text\<close> is the argument of \<^verbatim>\<open>parseInt\<close>. The result is what is
  returned or thrown, the effects, and the global afterwards.
\<close>

definition live :: "mqtt_client option \<Rightarrow> bool" where
  "live g = (case g of None \<Rightarrow> False | Some c \<Rightarrow> connected c)"

definition getMqttClient ::
  "'n env \<Rightarrow> mqtt_client option \<Rightarrow> (js_error + mqtt_client) \<times> 'n effect list \<times> mqtt_client option" where
  "getMqttClient e g =
    (if live g then (Inr (the g), [], g)
     else if \<not> str_set (MQTT_BROKER e) \<or> \<not> str_set (MQTT_USERNAME e) \<or> \<not> str_set (MQTT_PASSWORD e)
     then (Inl (JsError ''MQTT configuration missing''), [], g)
     else
       (let c = \<lparr>client_id_stamp = date_now e, connected = False\<rparr>
        in (Inr c,
            [Connect (MQTT_USE_TLS e = Some ''true'') (the (MQTT_BROKER e))
               (str_or (MQTT_PORT e) ''8883'') (the (MQTT_USERNAME e)) (date_now e)],
            Some c)))"

text \<open>
  The route's wait for the connection: at once when the client is connected, otherwise
  the first of the client's \<^verbatim>\<open>connect\<close> event, its \<^verbatim>\<open>error\<close> event and the timer.
\<close>

definition wait_connected :: "'n env \<Rightarrow> mqtt_client \<Rightarrow> js_error + mqtt_client" where
  "wait_connected e c =
    (if connected c then Inr c
     else (case on_connect e of
             ConnectEvent \<Rightarrow> Inr (c\<lparr>connected := True\<rparr>)
           | ErrorEvent err \<Rightarrow> Inl err
           | NoEvent \<Rightarrow> Inl (JsError ''MQTT connection timeout'')))"

text \<open>Sequencing of steps that may throw.\<close>

definition and_then :: "js_error + 'a \<Rightarrow> ('a \<Rightarrow> js_error + 'b) \<Rightarrow> js_error + 'b" where
  "and_then r f = (case r of Inl err \<Rightarrow> Inl err | Inr v \<Rightarrow> f v)"

text \<open>
  A chain \<^verbatim>\<open>!body.k1 || !body.k2 || ...\<close>, left to right with the short circuit of
  \<^verbatim>\<open>||\<close>: the first falsy property decides, and a property after it is not read.
\<close>

fun any_falsy :: "('n \<Rightarrow> bool) \<Rightarrow> 'n json \<Rightarrow> string list \<Rightarrow> js_error + bool" where
  "any_falsy z b [] = Inr False"
| "any_falsy z b (k # ks) =
     and_then (get_prop b k) (\<lambda>v. if \<not> truthy_val z v then Inr True else any_falsy z b ks)"

text \<open>The check \<^verbatim>\<open>!body.device_id || !body.consent_id || !body.scope\<close>.\<close>

definition missing_required :: "'n env \<Rightarrow> 'n json \<Rightarrow> js_error + bool" where
  "missing_required e b = any_falsy (is_zero e) b [''device_id'', ''consent_id'', ''scope'']"

text \<open>
  The properties that \<^verbatim>\<open>JSON.stringify\<close> writes for an object literal: a property whose
  value is \<^verbatim>\<open>undefined\<close> is left out.
\<close>

fun stringify_obj :: "(string \<times> 'n json option) list \<Rightarrow> (string \<times> 'n json) list" where
  "stringify_obj [] = []"
| "stringify_obj ((k, None) # kvs) = stringify_obj kvs"
| "stringify_obj ((k, Some v) # kvs) = (k, v) # stringify_obj kvs"

text \<open>
  The message text \<^verbatim>\<open>JSON.stringify(payload)\<close>, kept as the JSON value that the text
  denotes.
\<close>

definition start_payload :: "'n env \<Rightarrow> 'n json \<Rightarrow> js_error + 'n json" where
  "start_payload e b =
    and_then (get_prop b ''consent_id'') (\<lambda>c.
    and_then (get_prop b ''scope'') (\<lambda>s.
    and_then (get_prop b ''contact'') (\<lambda>k.
      Inr (stringify (number_json e) (JObj (stringify_obj
        [(''consent_id'', c),
         (''scope'', s),
         (''contact'', Some (js_or (is_zero e) k (JObj []))),
         (''timestamp'', Some (JStr (date_iso e)))]))))))"

text \<open>
  A value inside a template literal: a string stands for itself, \<^verbatim>\<open>undefined\<close> reads
  \<^verbatim>\<open>undefined\<close>, any other value goes through ToString.
\<close>

definition template_string :: "'n env \<Rightarrow> 'n json option \<Rightarrow> js_error + string" where
  "template_string e v =
    (case v of
       None \<Rightarrow> Inr ''undefined''
     | Some (JStr s) \<Rightarrow> Inr s
     | Some w \<Rightarrow> to_string_other e w)"

definition start_topic :: "'n env \<Rightarrow> 'n json \<Rightarrow> js_error + string" where
  "start_topic e b =
    and_then (get_prop b ''device_id'') (\<lambda>d.
    and_then (template_string e d) (\<lambda>t. Inr (''device/'' @ t @ ''/start'')))"

text \<open>
  The body of the route's \<^verbatim>\<open>try\<close>: the response returned or the error thrown, the
  effects on the broker, and the global client afterwards.
\<close>

definition publishStart_try ::
  "'n env \<Rightarrow> mqtt_client option \<Rightarrow> 'n request_body \<Rightarrow>
     (js_error + 'n response) \<times> 'n effect list \<times> mqtt_client option" where
  "publishStart_try e g req =
    (case req of
       BadJson err \<Rightarrow> (Inl err, [], g)
     | Json b \<Rightarrow>
       (case missing_required e b of
          Inl err \<Rightarrow> (Inl err, [], g)
        | Inr True \<Rightarrow>
            (Inr (json_response_status
               (JObj [(''error'', JStr ''Missing required fields: device_id, consent_id, scope'')]) 400),
             [], g)
        | Inr False \<Rightarrow>
          (case getMqttClient e g of
             (Inl err, fx, g') \<Rightarrow> (Inl err, fx, g')
           | (Inr c, fx, g') \<Rightarrow>
             (case wait_connected e c of
                Inl err \<Rightarrow> (Inl err, fx, g')
              | Inr c' \<Rightarrow>
                (case start_payload e b of
                   Inl err \<Rightarrow> (Inl err, fx, Some c')
                 | Inr p \<Rightarrow>
                   (case start_topic e b of
                      Inl err \<Rightarrow> (Inl err, fx, Some c')
                    | Inr t \<Rightarrow>
                      (case on_publish e of
                         Some err \<Rightarrow> (Inl err, fx @ [Publish t p 1], Some c')
                       | None \<Rightarrow>
                           (Inr (json_response
                              (JObj [(''success'', JBool True),
                                     (''message'', JStr ''Start command published''),
                                     (''topic'', JStr t)])),
                            fx @ [Publish t p 1], Some c'))))))))"

text \<open>
  \<^verbatim>\<open>POST\<close> of the publishStart route: the \<^verbatim>\<open>catch\<close> turns whatever was thrown into
  a 500 response carrying \<^verbatim>\<open>error.message || 'Failed to publish start command'\<close>.
\<close>

definition POST_publishStart ::
  "'n env \<Rightarrow> mqtt_client option \<Rightarrow> 'n request_body \<Rightarrow>
     'n response \<times> 'n effect list \<times> mqtt_client option" where
  "POST_publishStart e g req =
    (case publishStart_try e g req of
       (Inl err, fx, g') \<Rightarrow>
         (json_response_status
            (JObj [(''error'',
               JStr (if message err \<noteq> [] then message err else ''Failed to publish start command''))])
            500,
          fx, g')
     | (Inr r, fx, g') \<Rightarrow> (r, fx, g'))"

section \<open>The consent route\<close>

text \<open>
  \<^verbatim>\<open>randomUUID()\<close> of Node's \<^verbatim>\<open>crypto\<close>: a version 4 UUID of RFC 4122, that is 16
  random bytes with the version and variant bits set, written as lower-case hexadecimal
  digits in groups of 8, 4, 4, 4 and 12.
\<close>

definition hex_digit :: "nat \<Rightarrow> char" where
  "hex_digit n = ''0123456789abcdef'' ! (n mod 16)"

definition hex_byte :: "8 word \<Rightarrow> string" where
  "hex_byte w = [hex_digit (unat w div 16), hex_digit (unat w mod 16)]"

definition uuid_byte :: "(nat \<Rightarrow> 8 word) \<Rightarrow> nat \<Rightarrow> 8 word" where
  "uuid_byte r i =
    (if i = 6 then (r 6 AND 0x0F) OR 0x40
     else if i = 8 then (r 8 AND 0x3F) OR 0x80
     else r i)"

definition hex_bytes :: "(nat \<Rightarrow> 8 word) \<Rightarrow> nat list \<Rightarrow> string" where
  "hex_bytes r ixs = concat (map (\<lambda>i. hex_byte (uuid_byte r i)) ixs)"

definition randomUUID :: "'n env \<Rightarrow> string" where
  "randomUUID e =
    (let r = random_bytes e
     in hex_bytes r [0, 1, 2, 3] @ ''-'' @ hex_bytes r [4, 5] @ ''-'' @ hex_bytes r [6, 7] @ ''-''
        @ hex_bytes r [8, 9] @ ''-'' @ hex_bytes r [10, 11, 12, 13, 14, 15])"

text \<open>
  The module's \<^verbatim>\<open>consentStore\<close>, a \<^verbatim>\<open>Map\<close> from consent id to record, lives as long as
  the server process; \<^verbatim>\<open>set\<close> overwrites, \<^verbatim>\<open>get\<close> of a missing key is \<^verbatim>\<open>undefined\<close>.
\<close>

type_synonym 'n consentStore = "string \<rightharpoonup> 'n json"

text \<open>
  The record that \<^verbatim>\<open>POST\<close> stores. Past the check for required fields no property of
  it is \<^verbatim>\<open>undefined\<close>, so the object is the JSON that \<^verbatim>\<open>NextResponse.json\<close> writes for
  it. \<open>hdr\<close> is \<^verbatim>\<open>request.headers.get\<close>.
\<close>

definition consentRecord ::
  "'n env \<Rightarrow> (string \<Rightarrow> string option) \<Rightarrow> 'n json \<Rightarrow> string \<Rightarrow> js_error + 'n json" where
  "consentRecord e hdr b consentId =
    and_then (get_prop b ''name'') (\<lambda>n.
    and_then (get_prop b ''email'') (\<lambda>m.
    and_then (get_prop b ''company'') (\<lambda>c.
    and_then (get_prop b ''device'') (\<lambda>d.
    and_then (get_prop b ''scope'') (\<lambda>s.
    and_then (get_prop b ''authorized'') (\<lambda>a.
      Inr (JObj (stringify_obj
        [(''consent_id'', Some (JStr consentId)),
         (''timestamp'', Some (JStr (date_iso e))),
         (''name'', n),
         (''email'', m),
         (''company'', c),
         (''device_id'', d),
         (''scope'', s),
         (''authorized'', Some (js_or (is_zero e) a (JBool False))),
         (''ip_address'',
            Some (JStr (str_or (hdr ''x-forwarded-for'') (str_or (hdr ''x-real-ip'') ''unknown''))))]))))))))"

definition consent_try ::
  "'n env \<Rightarrow> 'n consentStore \<Rightarrow> (string \<Rightarrow> string option) \<Rightarrow> 'n request_body \<Rightarrow>
     (js_error + 'n response) \<times> 'n consentStore" where
  "consent_try e store hdr req =
    (case req of
       BadJson err \<Rightarrow> (Inl err, store)
     | Json b \<Rightarrow>
       (case any_falsy (is_zero e) b [''name'', ''email'', ''company'', ''device'', ''scope''] of
          Inl err \<Rightarrow> (Inl err, store)
        | Inr True \<Rightarrow>
            (Inr (json_response_status (JObj [(''error'', JStr ''Missing required fields'')]) 400), store)
        | Inr False \<Rightarrow>
          (let consentId = randomUUID e
           in (case consentRecord e hdr b consentId of
                 Inl err \<Rightarrow> (Inl err, store)
               | Inr rec \<Rightarrow>
                   (Inr (json_response
                      (JObj [(''consent_id'', JStr consentId),
                             (''message'', JStr ''Consent recorded successfully'')])),
                    store(consentId \<mapsto> rec))))))"

text \<open>\<^verbatim>\<open>POST\<close> of the consent route; its \<^verbatim>\<open>catch\<close> answers 500 whatever was thrown.\<close>

definition POST_consent ::
  "'n env \<Rightarrow> 'n consentStore \<Rightarrow> (string \<Rightarrow> string option) \<Rightarrow> 'n request_body \<Rightarrow>
     'n response \<times> 'n consentStore" where
  "POST_consent e store hdr req =
    (case consent_try e store hdr req of
       (Inl err, store') \<Rightarrow>
         (json_response_status (JObj [(''error'', JStr ''Internal server error'')]) 500, store')
     | (Inr r, store') \<Rightarrow> (r, store'))"


section \<open>The consent form and the page that submits it\<close>

text \<open>
  The form's state (\<^verbatim>\<open>formData\<close> of \<^verbatim>\<open>ConsentForm\<close>) and the prefill it starts from. The
  prefill's fields carry a prefix since a record of this theory already has those names.
  The form's handlers change the strings, the list of ranges and the flag, never the
  shape; the form hands its state to the page only when its own validation passes, and
  the page's \<^verbatim>\<open>handleSubmit\<close> below takes any state.
\<close>

record scope_form =
  cidr :: "string list"
  http_hosts :: "string list"

record form_data =
  name :: string
  email :: string
  company :: string
  device :: string
  scope :: scope_form
  authorized :: bool

record prefill =
  prefill_name :: string
  prefill_email :: string
  prefill_company :: string
  prefill_device :: string
  prefill_cidr :: string

text \<open>The initial state given to \<^verbatim>\<open>useState\<close>.\<close>

definition initial_form :: "prefill \<Rightarrow> form_data" where
  "initial_form p =
    \<lparr>name = prefill_name p,
     email = prefill_email p,
     company = prefill_company p,
     device = (if prefill_device p \<noteq> [] then prefill_device p else []),
     scope = \<lparr>cidr = (if prefill_cidr p \<noteq> [] then [prefill_cidr p] else [''192.168.1.0/24'']),
              http_hosts = []\<rparr>,
     authorized = False\<rparr>"

text \<open>\<^verbatim>\<open>JSON.stringify\<close> of the form's state and of its parts, as parsed by the routes.\<close>

definition scope_json :: "scope_form \<Rightarrow> 'n json" where
  "scope_json s =
    JObj [(''cidr'', JArr (map JStr (cidr s))), (''http_hosts'', JArr (map JStr (http_hosts s)))]"

definition form_json :: "form_data \<Rightarrow> 'n json" where
  "form_json fd =
    JObj [(''name'', JStr (name fd)),
          (''email'', JStr (email fd)),
          (''company'', JStr (company fd)),
          (''device'', JStr (device fd)),
          (''scope'', scope_json (scope fd)),
          (''authorized'', JBool (authorized fd))]"

text \<open>
  The body that \<^verbatim>\<open>handleSubmit\<close> of the page sends to the publishStart route; \<open>cid\<close> is
  \<^verbatim>\<open>data.consent_id\<close> of the consent route's answer.
\<close>

definition start_body :: "form_data \<Rightarrow> 'n json option \<Rightarrow> 'n json" where
  "start_body fd cid =
    JObj (stringify_obj
      [(''device_id'', Some (JStr (device fd))),
       (''consent_id'', cid),
       (''scope'', Some (scope_json (scope fd))),
       (''contact'',
          Some (JObj [(''name'', JStr (name fd)),
                      (''email'', JStr (email fd)),
                      (''company'', JStr (company fd))]))])"

text \<open>\<^verbatim>\<open>response.ok\<close>: a status from 200 to 299.\<close>

definition ok :: "'n response \<Rightarrow> bool" where
  "ok r = (200 \<le> status r \<and> status r \<le> 299)"

text \<open>
  \<^verbatim>\<open>handleSubmit\<close> of the page: the form is posted to the consent route; when the answer
  is not \<^verbatim>\<open>ok\<close> an error is thrown and nothing is sent to publishStart; otherwise the
  start command is posted. Both routes are called as functions (\<open>e1\<close> and \<open>e2\<close> are their
  surroundings at the time of each call); the result is the consent store, the effects
  on the broker and the MQTT client afterwards.
\<close>

definition handleSubmit ::
  "'n env \<Rightarrow> 'n env \<Rightarrow> 'n consentStore \<Rightarrow> mqtt_client option \<Rightarrow> (string \<Rightarrow> string option) \<Rightarrow>
     form_data \<Rightarrow> 'n consentStore \<times> 'n effect list \<times> mqtt_client option" where
  "handleSubmit e1 e2 store g hdr fd =
    (case POST_consent e1 store hdr (Json (form_json fd)) of
       (r1, store') \<Rightarrow>
         if \<not> ok r1 then (store', [], g)
         else (case get_prop (body r1) ''consent_id'' of
                 Inl err \<Rightarrow> (store', [], g)
               | Inr cid \<Rightarrow>
                   (case POST_publishStart e2 g (Json (start_body fd cid)) of
                      (r2, fx, g') \<Rightarrow> (store', fx, g'))))"

text \<open>The messages among the effects.\<close>

fun published :: "'n effect list \<Rightarrow> (string \<times> 'n json) list" where
  "published [] = []"
| "published (Publish t p q # fx) = (t, p) # published fx"
| "published (Connect s b p u n # fx) = published fx"

section \<open>Notions used in the statements\<close>

text \<open>
  A body holds a field when the property is there and its value is truthy: this is the
  routes' own test, which reports any other field as missing.
\<close>

definition filled :: "('n \<Rightarrow> bool) \<Rightarrow> 'n json \<Rightarrow> string \<Rightarrow> bool" where
  "filled z b k = (case get_prop b k of Inr (Some v) \<Rightarrow> truthy z v | _ \<Rightarrow> False)"




text \<open>Concrete surroundings and inputs for the examples; numbers are integers there.\<close>

definition sample_env :: "int env" where
  "sample_env =
    \<lparr>MQTT_BROKER = Some ''broker.example'', MQTT_PORT = None,
     MQTT_USERNAME = Some ''portal_user'', MQTT_PASSWORD = Some ''secret'',
     MQTT_USE_TLS = Some ''true'', date_now = 1700000000000,
     date_iso = ''2023-11-14T22:13:20.000Z'', is_zero = (\<lambda>n. n = 0),
     number_json = JNum,
     to_string_other = (\<lambda>v. Inr ''[object Object]''), on_connect = ConnectEvent,
     on_publish = None, random_bytes = (\<lambda>i. word_of_nat (17 * i + 3))\<rparr>"







definition sample_form :: form_data where
  "sample_form =
    (initial_form \<lparr>prefill_name = ''Ada Byron'', prefill_email = ''ada@example.org'',
                   prefill_company = ''Engines Ltd'', prefill_device = ''scout-001'',
                   prefill_cidr = []\<rparr>)\<lparr>authorized := True\<rparr>"

definition no_headers :: "string \<Rightarrow> string option" where
  "no_headers h = None"

section \<open>The device's uploader, from the specification\<close>

text \<open>
  The device software (the Python orchestrator, its scanner and its uploader) is not among
  the sources of the repository that are at hand; the Uploader below is written from the
  specification's sections 3, 4.6 and 7.
\<close>

text \<open>
  Modelled from the spec: the ReportArtifact of the data model,
  \<^verbatim>\<open>{pdf_bytes, sha256, consent_id, device_id, generated_at}\<close>.
\<close>

record ReportArtifact =
  pdf_bytes :: "8 word list"
  sha256 :: string
  consent_id :: string
  device_id :: string
  generated_at :: string










section \<open>Properties of the publishStart route\<close>

lemma get_prop_not_null: "b \<noteq> JNull \<Longrightarrow> \<exists>v. get_prop b k = Inr v"
  by (cases b) simp_all

lemma filled_not_null: "filled z b k \<Longrightarrow> b \<noteq> JNull"
  by (auto simp: filled_def)

lemma any_falsy_not_null:
  "b \<noteq> JNull \<Longrightarrow> any_falsy z b ks = Inr (\<exists>k \<in> set ks. \<not> filled z b k)"
proof (induction ks)
  case Nil
  then show ?case by simp
next
  case (Cons k ks)
  from Cons.prems obtain v where v: "get_prop b k = Inr v"
    using get_prop_not_null by blast
  show ?case
  proof (cases v)
    case None
    with v show ?thesis by (simp add: and_then_def filled_def)
  next
    case (Some w)
    with v Cons show ?thesis by (simp add: and_then_def filled_def)
  qed
qed

lemma missing_required_not_null:
  "b \<noteq> JNull \<Longrightarrow> missing_required e b =
     Inr (\<not> (filled (is_zero e) b ''device_id'' \<and> filled (is_zero e) b ''consent_id''
              \<and> filled (is_zero e) b ''scope''))"
  by (simp add: missing_required_def any_falsy_not_null del: any_falsy.simps)

lemma publishStart_null_body:
  "POST_publishStart e g (Json JNull) =
     (\<lparr>status = 500, body = JObj [(''error'', JStr (null_deref_message ''device_id''))]\<rparr>, [], g)"
  by (simp add: POST_publishStart_def publishStart_try_def missing_required_def and_then_def
      json_response_status_def null_deref_message_def)

text \<open>
  What the route does for a body that holds no truthy value for one of \<^verbatim>\<open>device_id\<close>,
  \<^verbatim>\<open>consent_id\<close> and \<^verbatim>\<open>scope\<close> (the field is lacking, or falsy): it neither connects to
  the broker nor publishes, and the global client is untouched; unless the body is
  \<^verbatim>\<open>null\<close>, the answer is status 400 with the error message naming the three fields.
\<close>

theorem publishStart_missing_fields:
  assumes "\<not> filled (is_zero e) b ''device_id'' \<or> \<not> filled (is_zero e) b ''consent_id''
           \<or> \<not> filled (is_zero e) b ''scope''"
  shows "snd (POST_publishStart e g (Json b)) = ([], g) \<and>
         (b \<noteq> JNull \<longrightarrow>
            fst (POST_publishStart e g (Json b)) =
              \<lparr>status = 400,
               body = JObj [(''error'', JStr ''Missing required fields: device_id, consent_id, scope'')]\<rparr>)"
proof (cases "b = JNull")
  case True
  then show ?thesis by (simp add: publishStart_null_body)
next
  case False
  with assms have "missing_required e b = Inr True"
    by (auto simp: missing_required_not_null)
  then show ?thesis
    by (simp add: POST_publishStart_def publishStart_try_def json_response_status_def)
qed

text \<open>The theorem at a body that has a device id and nothing else.\<close>

theorem publishStart_missing_fields_witness:
  "\<not> filled (is_zero sample_env) (JObj [(''device_id'', JStr ''scout-001'')]) ''consent_id'' \<and>
   POST_publishStart sample_env None (Json (JObj [(''device_id'', JStr ''scout-001'')])) =
     (\<lparr>status = 400,
       body = JObj [(''error'', JStr ''Missing required fields: device_id, consent_id, scope'')]\<rparr>,
      [], None)"
proof -
  have h: "\<not> filled (is_zero sample_env) (JObj [(''device_id'', JStr ''scout-001'')]) ''consent_id''"
    by (simp add: filled_def)
  have n: "JObj [(''device_id'', JStr ''scout-001'')] \<noteq> (JNull :: int json)"
    by simp
  from h have "\<not> filled (is_zero sample_env) (JObj [(''device_id'', JStr ''scout-001'')]) ''device_id''
      \<or> \<not> filled (is_zero sample_env) (JObj [(''device_id'', JStr ''scout-001'')]) ''consent_id''
      \<or> \<not> filled (is_zero sample_env) (JObj [(''device_id'', JStr ''scout-001'')]) ''scope''"
    by blast
  from publishStart_missing_fields [OF this, of None] n h show ?thesis
    by (simp add: prod_eq_iff)
qed

text \<open>
  Claim C9 holds of every body but one, and fails by a slip at the JSON body \<^verbatim>\<open>null\<close>. That
  body lacks all three fields; the check under the comment
  \<^verbatim>\<open>Validate required fields\<close> reads \<^verbatim>\<open>body.device_id\<close>, which throws on \<^verbatim>\<open>null\<close>, and the
  \<^verbatim>\<open>catch\<close> written for the errors of publishing answers 500 with the engine's message.
  The empty object, the body next to it, gets the 400 the claim states. Neither connects
  or publishes.
\<close>

theorem publishStart_null_body_fails:
  "\<not> filled (is_zero sample_env) JNull ''device_id'' \<and>
   POST_publishStart sample_env None (Json JNull) =
     (\<lparr>status = 500, body = JObj [(''error'', JStr (null_deref_message ''device_id''))]\<rparr>,
      [], None) \<and>
   POST_publishStart sample_env None (Json (JObj [])) =
     (\<lparr>status = 400,
       body = JObj [(''error'', JStr ''Missing required fields: device_id, consent_id, scope'')]\<rparr>,
      [], None)"
proof -
  have "POST_publishStart sample_env None (Json (JObj [])) =
     (\<lparr>status = 400,
       body = JObj [(''error'', JStr ''Missing required fields: device_id, consent_id, scope'')]\<rparr>,
      [], None)"
    by (simp add: POST_publishStart_def publishStart_try_def missing_required_def and_then_def
        json_response_status_def)
  then show ?thesis
    by (simp add: filled_def publishStart_null_body)
qed


lemma published_snoc: "published fx = [] \<Longrightarrow> published (fx @ [x]) = published [x]"
  by (induction fx rule: published.induct) simp_all

lemma getMqttClient_no_publish: "getMqttClient e g = (r, fx, g') \<Longrightarrow> published fx = []"
  by (auto simp: getMqttClient_def Let_def split: if_splits)





section \<open>Properties of the page's start request\<close>

lemma publishStart_published_payload:
  assumes "(t, p) \<in> set (published (fst (snd (POST_publishStart e g (Json b)))))"
  shows "start_payload e b = Inr p \<and> start_topic e b = Inr t"
proof -
  obtain r fx g' where gm: "getMqttClient e g = (r, fx, g')"
    by (cases "getMqttClient e g") auto
  then have np: "published fx = []" by (rule getMqttClient_no_publish)
  from assms show ?thesis
    by (auto simp: POST_publishStart_def publishStart_try_def gm np published_snoc
        split: sum.splits bool.splits option.splits)
qed

lemma stringify_strings: "map (stringify w) (map JStr xs) = map JStr xs"
  by (induction xs) simp_all

lemma start_body_payload:
  "start_payload e (start_body fd cid) = Inr p \<Longrightarrow>
     get_prop p ''scope'' = Inr (Some (scope_json (scope fd))) \<and>
     get_prop p ''contact'' =
       Inr (Some (JObj [(''name'', JStr (name fd)), (''email'', JStr (email fd)),
                        (''company'', JStr (company fd))]))"
  by (cases cid)
     (auto simp: start_payload_def start_body_def and_then_def js_or_def scope_json_def
        stringify_strings)

lemma handleSubmit_effects:
  "fst (snd (handleSubmit e1 e2 store g hdr fd)) = [] \<or>
   (\<exists>cid. fst (snd (handleSubmit e1 e2 store g hdr fd)) =
       fst (snd (POST_publishStart e2 g (Json (start_body fd cid)))))"
proof (cases "POST_consent e1 store hdr (Json (form_json fd))")
  case (Pair r1 store')
  show ?thesis
  proof (cases "ok r1")
    case False
    with Pair show ?thesis by (simp add: handleSubmit_def)
  next
    case True
    show ?thesis
    proof (cases "get_prop (body r1) ''consent_id''")
      case (Inl err)
      with Pair True show ?thesis by (simp add: handleSubmit_def)
    next
      case (Inr cid)
      with Pair True have "fst (snd (handleSubmit e1 e2 store g hdr fd)) =
          fst (snd (POST_publishStart e2 g (Json (start_body fd cid))))"
        by (simp add: handleSubmit_def split: prod.splits)
      then show ?thesis by blast
    qed
  qed
qed

lemmas eval_defs =
  handleSubmit_def initial_form_def form_json_def scope_json_def POST_consent_def
  consent_try_def and_then_def consentRecord_def ok_def json_response_def
  json_response_status_def start_body_def Let_def POST_publishStart_def publishStart_try_def
  missing_required_def getMqttClient_def live_def str_set_def str_or_def wait_connected_def
  start_payload_def start_topic_def template_string_def js_or_def sample_env_def
  randomUUID_def hex_bytes_def hex_byte_def hex_digit_def uuid_byte_def sample_form_def
  no_headers_def

lemma sample_submit:
  "published (fst (snd (handleSubmit sample_env sample_env Map.empty None no_headers sample_form))) =
     [(''device/scout-001/start'',
       JObj [(''consent_id'', JStr ''03142536-4758-497a-8b9c-adbecfe0f102''),
             (''scope'', JObj [(''cidr'', JArr [JStr ''192.168.1.0/24'']), (''http_hosts'', JArr [])]),
             (''contact'', JObj [(''name'', JStr ''Ada Byron''), (''email'', JStr ''ada@example.org''),
                                 (''company'', JStr ''Engines Ltd'')]),
             (''timestamp'', JStr ''2023-11-14T22:13:20.000Z'')])]"
  by (simp add: eval_defs)

text \<open>
  Claim C6, as amended. The start request that the page assembles from the form carries
  a scope object with the fields \<^verbatim>\<open>cidr\<close> and \<^verbatim>\<open>http_hosts\<close> (the form names the list
  of ranges \<^verbatim>\<open>cidr\<close>, and nothing renames it) and a contact object with \<^verbatim>\<open>name\<close>,
  \<^verbatim>\<open>email\<close> and \<^verbatim>\<open>company\<close>; every message the submission publishes carries that scope
  and that contact.
\<close>

theorem start_request_shape:
  "get_prop (start_body fd (cid :: 'n json option)) ''scope'' =
      Inr (Some (JObj [(''cidr'', JArr (map JStr (cidr (scope fd)))),
                       (''http_hosts'', JArr (map JStr (http_hosts (scope fd))))])) \<and>
   get_prop (start_body fd cid) ''contact'' =
      Inr (Some (JObj [(''name'', JStr (name fd)), (''email'', JStr (email fd)),
                       (''company'', JStr (company fd))])) \<and>
   (\<forall>(t, p) \<in> set (published (fst (snd (handleSubmit (e1 :: 'n env) e2 store g hdr fd)))).
      get_prop p ''scope'' =
        Inr (Some (JObj [(''cidr'', JArr (map JStr (cidr (scope fd)))),
                         (''http_hosts'', JArr (map JStr (http_hosts (scope fd))))])) \<and>
      get_prop p ''contact'' =
        Inr (Some (JObj [(''name'', JStr (name fd)), (''email'', JStr (email fd)),
                         (''company'', JStr (company fd))])))"
proof -
  have a: "get_prop (start_body fd cid) ''scope'' = Inr (Some (scope_json (scope fd)))"
    and b: "get_prop (start_body fd cid) ''contact'' =
      Inr (Some (JObj [(''name'', JStr (name fd)), (''email'', JStr (email fd)),
                       (''company'', JStr (company fd))]))"
    by (cases cid; simp add: start_body_def)+
  have c: "get_prop p ''scope'' = Inr (Some (scope_json (scope fd))) \<and>
      get_prop p ''contact'' =
        Inr (Some (JObj [(''name'', JStr (name fd)), (''email'', JStr (email fd)),
                         (''company'', JStr (company fd))]))"
    if "(t, p) \<in> set (published (fst (snd (handleSubmit e1 e2 store g hdr fd))))" for t p
  proof -
    from that obtain cid' where
      "(t, p) \<in> set (published (fst (snd (POST_publishStart e2 g (Json (start_body fd cid'))))))"
      using handleSubmit_effects [of e1 e2 store g hdr fd] by auto
    then have "start_payload e2 (start_body fd cid') = Inr p"
      using publishStart_published_payload by blast
    then show ?thesis by (rule start_body_payload)
  qed
  from a b c show ?thesis by (auto simp: scope_json_def)
qed

text \<open>
  The theorem at the form as it starts with no range prefilled, once authorised: the
  one message published has the scope and the contact the theorem gives.
\<close>

theorem start_request_shape_witness:
  "published (fst (snd (handleSubmit sample_env sample_env Map.empty None no_headers sample_form)))
     \<noteq> [] \<and>
   list_all (\<lambda>(t, p).
       get_prop p ''scope'' =
         Inr (Some (JObj [(''cidr'', JArr [JStr ''192.168.1.0/24'']), (''http_hosts'', JArr [])])) \<and>
       get_prop p ''contact'' =
         Inr (Some (JObj [(''name'', JStr ''Ada Byron''), (''email'', JStr ''ada@example.org''),
                          (''company'', JStr ''Engines Ltd'')])))
     (published (fst (snd (handleSubmit sample_env sample_env Map.empty None no_headers sample_form))))"
proof -
  have fd: "cidr (scope sample_form) = [''192.168.1.0/24'']" "http_hosts (scope sample_form) = []"
      "name sample_form = ''Ada Byron''" "email sample_form = ''ada@example.org''"
      "company sample_form = ''Engines Ltd''"
    by (simp_all add: sample_form_def initial_form_def)
  have ne: "published (fst (snd (handleSubmit sample_env sample_env Map.empty None no_headers
      sample_form))) \<noteq> []"
    by (simp add: sample_submit)
  from start_request_shape [of sample_form None sample_env sample_env Map.empty None no_headers]
  have "\<forall>(t, p) \<in> set (published (fst (snd (handleSubmit sample_env sample_env Map.empty None
      no_headers sample_form)))).
      get_prop p ''scope'' =
         Inr (Some (JObj [(''cidr'', JArr [JStr ''192.168.1.0/24'']), (''http_hosts'', JArr [])])) \<and>
      get_prop p ''contact'' =
         Inr (Some (JObj [(''name'', JStr ''Ada Byron''), (''email'', JStr ''ada@example.org''),
                          (''company'', JStr ''Engines Ltd'')]))"
    by (simp add: fd)
  with ne show ?thesis by (simp add: list_all_iff)
qed

text \<open>
  Claim C6 as stated fails: the scope of the message published for the form above has
  the fields \<^verbatim>\<open>cidr\<close> and \<^verbatim>\<open>http_hosts\<close>, and no field \<^verbatim>\<open>cidr_list\<close>.
\<close>

theorem start_request_cidr_list_counterexample:
  "published (fst (snd (handleSubmit sample_env sample_env Map.empty None no_headers sample_form))) =
     [(''device/scout-001/start'',
       JObj [(''consent_id'', JStr ''03142536-4758-497a-8b9c-adbecfe0f102''),
             (''scope'', JObj [(''cidr'', JArr [JStr ''192.168.1.0/24'']), (''http_hosts'', JArr [])]),
             (''contact'', JObj [(''name'', JStr ''Ada Byron''), (''email'', JStr ''ada@example.org''),
                                 (''company'', JStr ''Engines Ltd'')]),
             (''timestamp'', JStr ''2023-11-14T22:13:20.000Z'')])] \<and>
   get_prop (JObj [(''cidr'', JArr [JStr ''192.168.1.0/24'']), (''http_hosts'', JArr [])] :: int json)
     ''cidr_list'' = Inr None"
  by (simp add: sample_submit)

section \<open>Properties of the consent route\<close>







section \<open>Properties of the uploader\<close>












end
